theory Spec2Isabelle
  imports Complex_Main
begin

section \<open>Text primitives of the demo notebook\<close>

text \<open>
  The notebook \<^verbatim>\<open>notebooks/demo_analysis.ipynb\<close> works on Python \<^verbatim>\<open>str\<close> values.
  A text is modelled as a \<^typ>\<open>string\<close> whose characters are read as the code points
  0..255 (ASCII and Latin-1); code points beyond 255 are outside the model.
  The three character tables below are those of Python 3 on that range.
\<close>

definition code_point :: "char \<Rightarrow> nat" where
  "code_point c = of_char c"

text \<open>\<^verbatim>\<open>str.lower()\<close>: A to Z and the Latin-1 capitals move up by 32.\<close>

definition lower_char :: "char \<Rightarrow> char" where
  "lower_char c =
     (let n = code_point c in
      if (65 \<le> n \<and> n \<le> 90) \<or> (192 \<le> n \<and> n \<le> 214) \<or> (216 \<le> n \<and> n \<le> 222)
      then char_of (n + 32) else c)"

definition lower :: "string \<Rightarrow> string" where
  "lower s = map lower_char s"

text \<open>The class \<^verbatim>\<open>\w\<close> of the \<^verbatim>\<open>re\<close> module for \<^verbatim>\<open>str\<close> patterns:
  alphanumeric code points and the underscore.\<close>

definition is_word_char :: "char \<Rightarrow> bool" where
  "is_word_char c =
     (let n = code_point c in
      (48 \<le> n \<and> n \<le> 57) \<or> (65 \<le> n \<and> n \<le> 90) \<or> n = 95 \<or> (97 \<le> n \<and> n \<le> 122) \<or>
      n = 170 \<or> n = 178 \<or> n = 179 \<or> n = 181 \<or> n = 185 \<or> n = 186 \<or>
      (188 \<le> n \<and> n \<le> 190) \<or> (192 \<le> n \<and> n \<le> 214) \<or> (216 \<le> n \<and> n \<le> 246) \<or>
      248 \<le> n)"

text \<open>The characters \<^verbatim>\<open>str.split()\<close> treats as whitespace.\<close>

definition is_space :: "char \<Rightarrow> bool" where
  "is_space c =
     (let n = code_point c in
      (9 \<le> n \<and> n \<le> 13) \<or> (28 \<le> n \<and> n \<le> 32) \<or> n = 133 \<or> n = 160)"

section \<open>Regular expression search\<close>

text \<open>
  Every pattern of the notebook has the shape \<^verbatim>\<open>\b(w1|w2|...)\b\<close>. Such a pattern is
  modelled by the list of its alternatives, in the order written.
  \<^verbatim>\<open>\b\<close> holds at a position when exactly one of the two characters around it
  is a word character; the start and the end of the text count as non-word.
\<close>

type_synonym pattern = "string list"

definition word_opt :: "char option \<Rightarrow> bool" where
  "word_opt c = (case c of None \<Rightarrow> False | Some x \<Rightarrow> is_word_char x)"

definition at_boundary :: "char option \<Rightarrow> char option \<Rightarrow> bool" where
  "at_boundary prev nxt = (word_opt prev \<noteq> word_opt nxt)"

definition next_char :: "string \<Rightarrow> char option" where
  "next_char s = (case s of [] \<Rightarrow> None | c # _ \<Rightarrow> Some c)"

fun char_before_end :: "char option \<Rightarrow> string \<Rightarrow> char option" where
  "char_before_end prev [] = prev"
| "char_before_end prev (c # cs) = Some (last (c # cs))"

fun starts_with :: "string \<Rightarrow> string \<Rightarrow> bool" where
  "starts_with [] s = True"
| "starts_with (c # cs) [] = False"
| "starts_with (c # cs) (d # ds) = (c = d \<and> starts_with cs ds)"

text \<open>A match of \<^verbatim>\<open>\b(w1|...)\b\<close> that starts at the current position: \<open>prev\<close> is the
  character left of the position, \<open>s\<close> the rest of the text.\<close>

definition match_here :: "pattern \<Rightarrow> char option \<Rightarrow> string \<Rightarrow> bool" where
  "match_here alts prev s =
     (at_boundary prev (next_char s) \<and>
      list_ex (\<lambda>w. starts_with w s \<and>
                   at_boundary (char_before_end prev w) (next_char (drop (length w) s))) alts)"

text \<open>\<^verbatim>\<open>re.search\<close> tries every start position from left to right; the notebook only
  tests whether a match exists.\<close>

fun search_from :: "pattern \<Rightarrow> char option \<Rightarrow> string \<Rightarrow> bool" where
  "search_from alts prev [] = match_here alts prev []"
| "search_from alts prev (c # cs) =
     (match_here alts prev (c # cs) \<or> search_from alts (Some c) cs)"

definition re_search :: "pattern \<Rightarrow> string \<Rightarrow> bool" where
  "re_search alts s = search_from alts None s"

section \<open>Demographic detection\<close>

text \<open>The dictionary \<^verbatim>\<open>demographic_patterns\<close>, in insertion order (the order in which
  a Python 3.7+ dictionary is iterated).\<close>

definition demographic_patterns :: "(string \<times> pattern) list" where
  "demographic_patterns =
     [(''women'', [''women'', ''woman'', ''female'', ''females'']),
      (''men'', [''men'', ''man'', ''male'', ''males'']),
      (''white'', [''white'', ''caucasian'']),
      (''black'', [''black'', ''african american'']),
      (''poc'', [''people of color'', ''hispanic'', ''latino'', ''latina'', ''asian''])]"

text \<open>The loop of \<^verbatim>\<open>detect_demographics\<close> that fills \<^verbatim>\<open>found\<close>.\<close>

definition found_groups :: "string \<Rightarrow> string list" where
  "found_groups text_lower =
     map fst (filter (\<lambda>(demo, pattern). re_search pattern text_lower) demographic_patterns)"

definition detect_demographics :: "string \<Rightarrow> string list" where
  "detect_demographics text =
     (let text_lower = lower text;
          found = found_groups text_lower;
          found = (if ''women'' \<in> set found \<and> (''black'' \<in> set found \<or> ''poc'' \<in> set found)
                   then found @ [''women_of_color''] else found);
          found = (if ''men'' \<in> set found \<and> ''white'' \<in> set found
                   then found @ [''white_men''] else found)
      in found)"

text \<open>Whether the pattern stored under the key \<open>demo\<close> matches the lower-cased text.\<close>

definition mentions :: "string \<Rightarrow> string \<Rightarrow> bool" where
  "mentions demo text =
     (case map_of demographic_patterns demo of
        None \<Rightarrow> False
      | Some pattern \<Rightarrow> re_search pattern (lower text))"

text \<open>The two axes of the dictionary: the keys \<^verbatim>\<open>women\<close> and \<^verbatim>\<open>men\<close> hold the gender
  terms, the keys \<^verbatim>\<open>white\<close>, \<^verbatim>\<open>black\<close> and \<^verbatim>\<open>poc\<close> the race-ethnicity terms.\<close>

definition gender_mentioned :: "string \<Rightarrow> bool" where
  "gender_mentioned text = (mentions ''women'' text \<or> mentions ''men'' text)"

definition race_mentioned :: "string \<Rightarrow> bool" where
  "race_mentioned text =
     (mentions ''white'' text \<or> mentions ''black'' text \<or> mentions ''poc'' text)"

text \<open>The composite targets, as named by the keys of \<^verbatim>\<open>demographics.intersectional\<close> in
  \<^verbatim>\<open>configs/frame_definitions.yaml\<close>, with the phrases listed under each key.
  The notebook does not read this table.\<close>

definition intersectional :: "(string \<times> string list) list" where
  "intersectional =
     [(''women_of_color'',
        [''women of color'', ''black women'', ''latina women'', ''hispanic women'',
         ''asian women'', ''indigenous women'']),
      (''white_women'', [''white women'', ''caucasian women'']),
      (''white_men'', [''white men'', ''caucasian men'']),
      (''men_of_color'',
        [''men of color'', ''black men'', ''latino men'', ''hispanic men'',
         ''asian men'', ''indigenous men''])]"

definition composite_targets :: "string list" where
  "composite_targets = map fst intersectional"

definition phrase_target :: "string \<Rightarrow> string option" where
  "phrase_target phrase =
     map_option fst (find (\<lambda>(target, phrases). phrase \<in> set phrases) intersectional)"

section \<open>Frame detection and the analysis loop\<close>

text \<open>
  \<^verbatim>\<open>label.split()\<close>: the maximal runs of non-whitespace characters.
\<close>

function split_ws :: "string \<Rightarrow> string list" where
  "split_ws [] = []"
| "split_ws (c # cs) =
     (if is_space c then split_ws cs
      else (c # takeWhile (\<lambda>x. \<not> is_space x) cs) # split_ws (dropWhile (\<lambda>x. \<not> is_space x) cs))"
  by pat_completeness auto
termination
  by (relation "measure length") (auto simp: length_dropWhile_le less_Suc_eq_le)

text \<open>
  What can be raised inside the loop: \<^verbatim>\<open>label.split()[0]\<close> on a blank label, and
  whatever the external classifier call raises (the notebook has no \<^verbatim>\<open>try\<close>).
\<close>

datatype error = IndexError | ClassifierError

text \<open>
  The dictionary returned by the zero-shot pipeline, with the two entries the notebook
  reads. A score is a finite Python float, modelled by the rational it denotes; the
  comparison with the literal \<^verbatim>\<open>0.5\<close> is exact on floats.
\<close>

record frame_result =
  labels :: "string list"
  scores :: "rat list"

text \<open>The list comprehension over \<^verbatim>\<open>zip(labels, scores)\<close> with the filter
  \<^verbatim>\<open>score > 0.5\<close>.\<close>

fun keep_frames :: "(string \<times> rat) list \<Rightarrow> error + (string \<times> rat) list" where
  "keep_frames [] = Inr []"
| "keep_frames ((label, score) # rest) =
     (if score > 1 / 2 then
        (case split_ws label of
           [] \<Rightarrow> Inl IndexError
         | w # _ \<Rightarrow> (case keep_frames rest of
                       Inl e \<Rightarrow> Inl e
                     | Inr out \<Rightarrow> Inr ((w, score) # out)))
      else keep_frames rest)"

definition detected_frames :: "frame_result \<Rightarrow> error + (string \<times> rat) list" where
  "detected_frames fr = keep_frames (zip (labels fr) (scores fr))"

definition frame_labels :: "string list" where
  "frame_labels =
     [''underrepresentation in leadership'',
      ''overrepresentation in leadership'',
      ''obstacles to leadership'',
      ''successes in leadership'']"

text \<open>The first word of each candidate label, written out: the frame name that
  \<^verbatim>\<open>label.split()[0]\<close> gives for it.\<close>

abbreviation frame_word :: "string \<Rightarrow> string" where
  "frame_word label \<equiv>
     (if label = ''underrepresentation in leadership'' then ''underrepresentation''
      else if label = ''overrepresentation in leadership'' then ''overrepresentation''
      else if label = ''obstacles to leadership'' then ''obstacles''
      else ''successes'')"

text \<open>An article is a dictionary loaded from JSON; the record has the keys the loop
  reads, with identifiers and titles taken as text. \<open>analysis\<close> is the dictionary the
  loop appends to \<^verbatim>\<open>results\<close>.\<close>

record article =
  article_id :: string
  title :: string
  content :: string

record analysis =
  r_article_id :: string
  r_title :: string
  r_detected_frames :: "(string \<times> rat) list"
  r_demographics :: "string list"

text \<open>The external call \<^verbatim>\<open>classifier(content, candidate_labels=frame_labels,
  multi_label=True)\<close>: it returns a result or raises.\<close>

type_synonym classifier = "string \<Rightarrow> error + frame_result"

text \<open>The \<^verbatim>\<open>for article in articles\<close> loop; \<open>results\<close> is the list built so far.
  An exception leaves the loop with the entries appended before it.\<close>

fun analyze_loop :: "classifier \<Rightarrow> article list \<Rightarrow> analysis list \<Rightarrow> analysis list \<times> error option" where
  "analyze_loop clf [] results = (results, None)"
| "analyze_loop clf (a # rest) results =
     (case clf (content a) of
        Inl e \<Rightarrow> (results, Some e)
      | Inr frame_result \<Rightarrow>
          (case detected_frames frame_result of
             Inl e \<Rightarrow> (results, Some e)
           | Inr frames \<Rightarrow>
               analyze_loop clf rest
                 (results @ [\<lparr>r_article_id = article_id a, r_title = title a,
                              r_detected_frames = frames,
                              r_demographics = detect_demographics (content a)\<rparr>])))"

text \<open>The cell: \<^verbatim>\<open>results = []\<close>, then the loop.\<close>

definition analyze_all :: "classifier \<Rightarrow> article list \<Rightarrow> analysis list \<times> error option" where
  "analyze_all clf arts = analyze_loop clf arts []"



section \<open>Sample inputs\<close>

text \<open>The example sentence of the specification.\<close>

definition ceiling_text :: string where
  "ceiling_text =
     ''White women are up against a glass ceiling, but women of color are up against a concrete ceiling''"

text \<open>A classifier that always answers with a high score for obstacles only, and one
  that raises on the text \<^verbatim>\<open>unreachable\<close>.\<close>

definition obstacles_only :: frame_result where
  "obstacles_only =
     \<lparr>labels = [''obstacles to leadership'', ''underrepresentation in leadership'',
                ''successes in leadership'', ''overrepresentation in leadership''],
      scores = [9 / 10, 1 / 2, 1 / 5, 1 / 10]\<rparr>"

definition steady_oracle :: classifier where
  "steady_oracle text = Inr obstacles_only"

definition flaky_oracle :: classifier where
  "flaky_oracle text = (if text = ''unreachable'' then Inl ClassifierError else Inr obstacles_only)"

section \<open>Facts about the detection of demographic groups\<close>

lemma found_groups_distinct: "distinct (found_groups s)"
  by (simp add: found_groups_def demographic_patterns_def)

lemma mem_found_groups: "d \<in> set (found_groups (lower t)) \<longleftrightarrow> mentions d t"
  by (auto simp: found_groups_def demographic_patterns_def mentions_def
      split: option.splits if_splits)

lemma mentions_cases:
  "mentions d t \<Longrightarrow> d \<in> {''women'', ''men'', ''white'', ''black'', ''poc''}"
  by (auto simp: mentions_def demographic_patterns_def split: option.splits if_splits)

lemma set_detect_demographics:
  "set (detect_demographics t) =
     {d. mentions d t} \<union>
     (if mentions ''women'' t \<and> (mentions ''black'' t \<or> mentions ''poc'' t)
      then {''women_of_color''} else {}) \<union>
     (if mentions ''men'' t \<and> mentions ''white'' t then {''white_men''} else {})"
  by (auto simp: detect_demographics_def Let_def mem_found_groups)

lemma detect_demographics_distinct: "distinct (detect_demographics t)"
  using found_groups_distinct[of "lower t"] mentions_cases
  by (auto simp: detect_demographics_def Let_def mem_found_groups)

lemma no_mention:
  assumes "\<not> gender_mentioned t" and "\<not> race_mentioned t"
  shows "\<not> mentions d t"
proof
  assume m: "mentions d t"
  from mentions_cases[OF m] m assms show False
    by (auto simp: gender_mentioned_def race_mentioned_def)
qed

lemma found_groups_empty:
  assumes "\<not> gender_mentioned t" and "\<not> race_mentioned t"
  shows "found_groups (lower t) = []"
proof (cases "found_groups (lower t)")
  case Nil
  then show ?thesis .
next
  case (Cons d ds)
  then have "d \<in> set (found_groups (lower t))" by simp
  then have "mentions d t" by (simp add: mem_found_groups)
  with no_mention[OF assms] show ?thesis by blast
qed

lemma detect_demographics_cases:
  "x \<in> set (detect_demographics t) \<Longrightarrow>
     mentions x t \<or> x = ''women_of_color'' \<or> x = ''white_men''"
  by (simp add: set_detect_demographics split: if_splits) blast+

lemma mentions_detected: "mentions d t \<Longrightarrow> d \<in> set (detect_demographics t)"
  by (simp add: set_detect_demographics)

lemma women_of_color_not_key: "\<not> mentions ''women_of_color'' t"
  using mentions_cases[of "''women_of_color''" t] by auto

lemma white_men_not_key: "\<not> mentions ''white_men'' t"
  using mentions_cases[of "''white_men''" t] by auto

lemma white_women_not_key: "\<not> mentions ''white_women'' t"
  using mentions_cases[of "''white_women''" t] by auto

lemma men_of_color_not_key: "\<not> mentions ''men_of_color'' t"
  using mentions_cases[of "''men_of_color''" t] by auto

lemma women_of_color_iff:
  "''women_of_color'' \<in> set (detect_demographics t) \<longleftrightarrow>
     mentions ''women'' t \<and> (mentions ''black'' t \<or> mentions ''poc'' t)"
  by (simp add: set_detect_demographics women_of_color_not_key)

lemma white_men_iff:
  "''white_men'' \<in> set (detect_demographics t) \<longleftrightarrow>
     mentions ''men'' t \<and> mentions ''white'' t"
  by (simp add: set_detect_demographics white_men_not_key)

lemma white_women_never: "''white_women'' \<notin> set (detect_demographics t)"
  by (simp add: set_detect_demographics white_women_not_key)

lemma men_of_color_never: "''men_of_color'' \<notin> set (detect_demographics t)"
  by (simp add: set_detect_demographics men_of_color_not_key)

lemma detect_demographics_subset:
  "set (detect_demographics t) \<subseteq>
     {''women'', ''men'', ''white'', ''black'', ''poc'', ''women_of_color'', ''white_men''}"
proof
  fix x assume "x \<in> set (detect_demographics t)"
  then consider "mentions x t" | "x = ''women_of_color''" | "x = ''white_men''"
    using detect_demographics_cases by blast
  then show "x \<in> {''women'', ''men'', ''white'', ''black'', ''poc'',
                    ''women_of_color'', ''white_men''}"
  proof cases
    case 1
    from mentions_cases[OF 1] show ?thesis by (elim insertE emptyE) simp_all
  next
    case 2
    then show ?thesis by simp
  next
    case 3
    then show ?thesis by simp
  qed
qed

lemma composite_both_axes:
  assumes "c \<in> set composite_targets" and "c \<in> set (detect_demographics t)"
  shows "gender_mentioned t \<and> race_mentioned t"
proof -
  have "\<not> mentions c t"
  proof
    assume m: "mentions c t"
    from mentions_cases[OF m] assms(1) show False
      by (auto simp: composite_targets_def intersectional_def)
  qed
  with assms(2)
  have "(mentions ''women'' t \<and> (mentions ''black'' t \<or> mentions ''poc'' t)) \<or>
        (mentions ''men'' t \<and> mentions ''white'' t)"
    by (simp add: set_detect_demographics split: if_splits)
  then show ?thesis
    by (auto simp: gender_mentioned_def race_mentioned_def)
qed

lemma found_groups_filter:
  "found_groups (lower t) =
     filter (\<lambda>d. mentions d t) [''women'', ''men'', ''white'', ''black'', ''poc'']"
  by (simp add: found_groups_def demographic_patterns_def mentions_def)

lemma women_white_only:
  assumes "mentions ''women'' t" "mentions ''white'' t"
    "\<not> mentions ''men'' t" "\<not> mentions ''black'' t" "\<not> mentions ''poc'' t"
  shows "detect_demographics t = [''women'', ''white'']"
  using assms by (simp add: detect_demographics_def Let_def found_groups_filter)

lemma men_black_only:
  assumes "mentions ''men'' t" "mentions ''black'' t"
    "\<not> mentions ''women'' t" "\<not> mentions ''white'' t" "\<not> mentions ''poc'' t"
  shows "detect_demographics t = [''men'', ''black'']"
  using assms by (simp add: detect_demographics_def Let_def found_groups_filter)

lemma men_poc_only:
  assumes "mentions ''men'' t" "mentions ''poc'' t"
    "\<not> mentions ''women'' t" "\<not> mentions ''white'' t" "\<not> mentions ''black'' t"
  shows "detect_demographics t = [''men'', ''poc'']"
  using assms by (simp add: detect_demographics_def Let_def found_groups_filter)

section \<open>Facts about frame detection and the loop\<close>

lemma analyze_loop_append:
  "analyze_loop clf (xs @ ys) rs =
     (case analyze_loop clf xs rs of
        (rs', None) \<Rightarrow> analyze_loop clf ys rs'
      | (rs', Some e) \<Rightarrow> (rs', Some e))"
  by (induction xs arbitrary: rs) (simp_all split: sum.splits)


lemma split_ws_under:
  "split_ws ''underrepresentation in leadership'' = [''underrepresentation'', ''in'', ''leadership'']"
  by code_simp

lemma split_ws_over:
  "split_ws ''overrepresentation in leadership'' = [''overrepresentation'', ''in'', ''leadership'']"
  by code_simp

lemma split_ws_obstacles:
  "split_ws ''obstacles to leadership'' = [''obstacles'', ''to'', ''leadership'']"
  by code_simp

lemma split_ws_successes:
  "split_ws ''successes in leadership'' = [''successes'', ''in'', ''leadership'']"
  by code_simp

lemma frame_label_first_word:
  assumes "l \<in> set frame_labels"
  shows "\<exists>ws. split_ws l = frame_word l # ws"
proof -
  have a: "\<exists>ws. split_ws ''underrepresentation in leadership'' =
      frame_word ''underrepresentation in leadership'' # ws"
    by (simp add: split_ws_under del: split_ws.simps)
  have b: "\<exists>ws. split_ws ''overrepresentation in leadership'' =
      frame_word ''overrepresentation in leadership'' # ws"
    by (simp add: split_ws_over del: split_ws.simps)
  have c: "\<exists>ws. split_ws ''obstacles to leadership'' =
      frame_word ''obstacles to leadership'' # ws"
    by (simp add: split_ws_obstacles del: split_ws.simps)
  have d: "\<exists>ws. split_ws ''successes in leadership'' =
      frame_word ''successes in leadership'' # ws"
    by (simp add: split_ws_successes del: split_ws.simps)
  from assms have "l = ''underrepresentation in leadership'' \<or>
      l = ''overrepresentation in leadership'' \<or>
      l = ''obstacles to leadership'' \<or> l = ''successes in leadership''"
    by (simp add: frame_labels_def)
  then show ?thesis
  proof (elim disjE)
    assume "l = ''underrepresentation in leadership''"
    then show ?thesis by (simp only: a)
  next
    assume "l = ''overrepresentation in leadership''"
    then show ?thesis by (simp only: b)
  next
    assume "l = ''obstacles to leadership''"
    then show ?thesis by (simp only: c)
  next
    assume "l = ''successes in leadership''"
    then show ?thesis by (simp only: d)
  qed
qed

lemma keep_frames_exact:
  assumes "\<forall>p \<in> set ps. \<exists>ws. split_ws (fst p) = f (fst p) # ws"
  shows "keep_frames ps = Inr (map (\<lambda>(l, s). (f l, s)) (filter (\<lambda>(l, s). 1 / 2 < s) ps))"
  using assms
proof (induction ps rule: keep_frames.induct)
  case 1
  then show ?case by simp
next
  case (2 label score rest)
  from "2.prems" obtain ws where sp: "split_ws label = f label # ws" by auto
  from "2.prems" have rest: "\<forall>p \<in> set rest. \<exists>ws. split_ws (fst p) = f (fst p) # ws" by simp
  show ?case
  proof (cases "1 / 2 < score")
    case True
    from "2.IH"(1)[OF True sp rest] True sp show ?thesis by simp
  next
    case False
    from "2.IH"(2)[OF False rest] False show ?thesis by simp
  qed
qed

lemma detected_frames_candidates:
  assumes "set (labels fr) \<subseteq> set frame_labels"
  shows "detected_frames fr =
           Inr (map (\<lambda>(l, s). (frame_word l, s))
                  (filter (\<lambda>(l, s). 1 / 2 < s) (zip (labels fr) (scores fr))))"
proof -
  have "\<forall>p \<in> set (zip (labels fr) (scores fr)). \<exists>ws. split_ws (fst p) = frame_word (fst p) # ws"
  proof
    fix p assume pin: "p \<in> set (zip (labels fr) (scores fr))"
    obtain l s where p: "p = (l, s)" by (cases p)
    from pin have "l \<in> set (labels fr)"
      unfolding p by (rule set_zip_leftD)
    with assms have "l \<in> set frame_labels" by (rule subsetD)
    from frame_label_first_word[OF this]
    show "\<exists>ws. split_ws (fst p) = frame_word (fst p) # ws"
      unfolding p fst_conv .
  qed
  from keep_frames_exact[of "zip (labels fr) (scores fr)" frame_word, OF this]
  show ?thesis
    unfolding detected_frames_def .
qed

lemma ceiling_text_demographics: "detect_demographics ceiling_text = [''women'', ''white'']"
  by code_simp

lemma obstacles_only_frames: "detected_frames obstacles_only = Inr [(''obstacles'', 9 / 10)]"
  by code_simp

section \<open>Claims about \<^verbatim>\<open>detect_demographics\<close>\<close>

text \<open>
  C10. For every input string, \<^verbatim>\<open>detect_demographics\<close> returns a list without
  duplicates whose elements are among women, men, white, black, poc, women_of_color and
  white_men; women_of_color is in the list only if women and at least one of black and poc
  are, and white_men only if both men and white are.
\<close>

theorem detect_demographics_shape:
  "distinct (detect_demographics t) \<and>
   set (detect_demographics t) \<subseteq>
     {''women'', ''men'', ''white'', ''black'', ''poc'', ''women_of_color'', ''white_men''} \<and>
   (''women_of_color'' \<in> set (detect_demographics t) \<longrightarrow>
      ''women'' \<in> set (detect_demographics t) \<and>
      (''black'' \<in> set (detect_demographics t) \<or> ''poc'' \<in> set (detect_demographics t))) \<and>
   (''white_men'' \<in> set (detect_demographics t) \<longrightarrow>
      ''men'' \<in> set (detect_demographics t) \<and> ''white'' \<in> set (detect_demographics t))"
proof (intro conjI impI)
  show "distinct (detect_demographics t)"
    by (rule detect_demographics_distinct)
  show "set (detect_demographics t) \<subseteq>
     {''women'', ''men'', ''white'', ''black'', ''poc'', ''women_of_color'', ''white_men''}"
    by (rule detect_demographics_subset)
next
  assume "''women_of_color'' \<in> set (detect_demographics t)"
  then have m: "mentions ''women'' t \<and> (mentions ''black'' t \<or> mentions ''poc'' t)"
    by (simp only: women_of_color_iff)
  from m show "''women'' \<in> set (detect_demographics t)"
    by (simp only: mentions_detected)
  from m show "''black'' \<in> set (detect_demographics t) \<or> ''poc'' \<in> set (detect_demographics t)"
    using mentions_detected[of "''black''" t] mentions_detected[of "''poc''" t]
    by (elim conjE disjE) (rule disjI1, simp, rule disjI2, simp)
next
  assume "''white_men'' \<in> set (detect_demographics t)"
  then have m: "mentions ''men'' t \<and> mentions ''white'' t"
    by (simp only: white_men_iff)
  from m show "''men'' \<in> set (detect_demographics t)"
    by (simp only: mentions_detected)
  from m show "''white'' \<in> set (detect_demographics t)"
    by (simp only: mentions_detected)
qed

theorem detect_demographics_shape_witness:
  "''women_of_color'' \<in> set (detect_demographics ''Black women and white men'') \<and>
   ''white_men'' \<in> set (detect_demographics ''Black women and white men'') \<and>
   ''women'' \<in> set (detect_demographics ''Black women and white men'') \<and>
   ''men'' \<in> set (detect_demographics ''Black women and white men'') \<and>
   ''white'' \<in> set (detect_demographics ''Black women and white men'')"
proof -
  let ?T = "''Black women and white men''"
  have a: "''women_of_color'' \<in> set (detect_demographics ?T)"
    by code_simp
  have b: "''white_men'' \<in> set (detect_demographics ?T)"
    by code_simp
  note s = detect_demographics_shape[of ?T]
  note c = s[THEN conjunct2, THEN conjunct2, THEN conjunct1, THEN mp, OF a, THEN conjunct1]
  note d = s[THEN conjunct2, THEN conjunct2, THEN conjunct2, THEN mp, OF b]
  show ?thesis
    using a b c d by simp
qed

text \<open>
  C7. When no gender keyword and no race-ethnicity keyword matches the text, none of the
  four composite targets is in the result; and whenever a composite target is in the
  result, a gender keyword and a race-ethnicity keyword both match that same text.
\<close>

theorem composite_needs_both_axes:
  "(\<not> gender_mentioned t \<and> \<not> race_mentioned t \<longrightarrow>
      (\<forall>c \<in> set composite_targets. c \<notin> set (detect_demographics t))) \<and>
   (\<forall>c \<in> set composite_targets.
      c \<in> set (detect_demographics t) \<longrightarrow> gender_mentioned t \<and> race_mentioned t)"
proof (intro conjI impI ballI)
  fix c
  assume n: "\<not> gender_mentioned t \<and> \<not> race_mentioned t" and c: "c \<in> set composite_targets"
  show "c \<notin> set (detect_demographics t)"
  proof
    assume "c \<in> set (detect_demographics t)"
    from composite_both_axes[OF c this] n show False by simp
  qed
next
  fix c
  assume "c \<in> set composite_targets" and "c \<in> set (detect_demographics t)"
  then show "gender_mentioned t" by (simp add: composite_both_axes)
next
  fix c
  assume "c \<in> set composite_targets" and "c \<in> set (detect_demographics t)"
  then show "race_mentioned t" by (simp add: composite_both_axes)
qed

theorem composite_needs_both_axes_witness:
  "\<not> gender_mentioned ''The company values diversity.'' \<and>
   \<not> race_mentioned ''The company values diversity.'' \<and>
   ''women_of_color'' \<notin> set (detect_demographics ''The company values diversity.'') \<and>
   ''white_men'' \<in> set (detect_demographics ''White men work hard.'') \<and>
   gender_mentioned ''White men work hard.'' \<and> race_mentioned ''White men work hard.''"
proof -
  have g: "\<not> gender_mentioned ''The company values diversity.''"
    by code_simp
  have r: "\<not> race_mentioned ''The company values diversity.''"
    by code_simp
  have c: "''white_men'' \<in> set composite_targets"
    by code_simp
  have c': "''women_of_color'' \<in> set composite_targets"
    by code_simp
  have d: "''white_men'' \<in> set (detect_demographics ''White men work hard.'')"
    by code_simp
  note none = composite_needs_both_axes[of "''The company values diversity.''",
      THEN conjunct1, THEN mp, OF conjI[OF g r], THEN bspec, OF c']
  note both = composite_needs_both_axes[of "''White men work hard.''",
      THEN conjunct2, THEN bspec, OF c, THEN mp, OF d]
  show ?thesis
    using g r none d both by simp
qed

text \<open>
  C2 (as the code has it). When no gender keyword and no race-ethnicity keyword matches,
  \<^verbatim>\<open>detect_demographics\<close> returns the empty list; no placeholder target is added.
\<close>

theorem no_keyword_gives_empty:
  assumes "\<not> gender_mentioned t" and "\<not> race_mentioned t"
  shows "detect_demographics t = []"
  by (simp add: detect_demographics_def Let_def found_groups_empty[OF assms])

theorem no_keyword_gives_empty_witness:
  "\<not> gender_mentioned ''Leadership is challenging.'' \<and>
   \<not> race_mentioned ''Leadership is challenging.'' \<and>
   detect_demographics ''Leadership is challenging.'' = []"
proof -
  have g: "\<not> gender_mentioned ''Leadership is challenging.''"
    by code_simp
  have r: "\<not> race_mentioned ''Leadership is challenging.''"
    by code_simp
  show ?thesis
    using g r no_keyword_gives_empty[OF g r] by simp
qed

text \<open>
  C2 as stated fails: on a text without any keyword the result is the empty list, not
  the singleton holding \<^verbatim>\<open>unspecified\<close>.
\<close>

theorem unspecified_counterexample:
  "\<not> gender_mentioned ''The board met today.'' \<and>
   \<not> race_mentioned ''The board met today.'' \<and>
   detect_demographics ''The board met today.'' = [] \<and>
   ''unspecified'' \<notin> set (detect_demographics ''The board met today.'')"
  by code_simp

text \<open>
  C1 (as the code has it). When a women term and a black or people-of-color term both
  match, the result contains women_of_color; when a men term and a white term both match,
  it contains white_men. The other two combinations add nothing: white_women and
  men_of_color are never in the result. When only a women term and a white term match,
  the result is women and white; when only a men term and a black term match, it is men
  and black; when only a men term and a people-of-color term match, it is men and poc.
\<close>

theorem two_composites_detected:
  "(mentions ''women'' t \<and> (mentions ''black'' t \<or> mentions ''poc'' t) \<longrightarrow>
      ''women_of_color'' \<in> set (detect_demographics t)) \<and>
   (mentions ''men'' t \<and> mentions ''white'' t \<longrightarrow>
      ''white_men'' \<in> set (detect_demographics t)) \<and>
   ''white_women'' \<notin> set (detect_demographics t) \<and>
   ''men_of_color'' \<notin> set (detect_demographics t) \<and>
   (mentions ''women'' t \<and> mentions ''white'' t \<and>
    \<not> mentions ''men'' t \<and> \<not> mentions ''black'' t \<and> \<not> mentions ''poc'' t \<longrightarrow>
      detect_demographics t = [''women'', ''white'']) \<and>
   (mentions ''men'' t \<and> mentions ''black'' t \<and>
    \<not> mentions ''women'' t \<and> \<not> mentions ''white'' t \<and> \<not> mentions ''poc'' t \<longrightarrow>
      detect_demographics t = [''men'', ''black'']) \<and>
   (mentions ''men'' t \<and> mentions ''poc'' t \<and>
    \<not> mentions ''women'' t \<and> \<not> mentions ''white'' t \<and> \<not> mentions ''black'' t \<longrightarrow>
      detect_demographics t = [''men'', ''poc''])"
proof (intro conjI impI)
  assume "mentions ''women'' t \<and> (mentions ''black'' t \<or> mentions ''poc'' t)"
  then show "''women_of_color'' \<in> set (detect_demographics t)"
    by (simp only: women_of_color_iff)
next
  assume "mentions ''men'' t \<and> mentions ''white'' t"
  then show "''white_men'' \<in> set (detect_demographics t)"
    by (simp only: white_men_iff)
next
  show "''white_women'' \<notin> set (detect_demographics t)"
    by (rule white_women_never)
next
  show "''men_of_color'' \<notin> set (detect_demographics t)"
    by (rule men_of_color_never)
next
  assume "mentions ''women'' t \<and> mentions ''white'' t \<and>
    \<not> mentions ''men'' t \<and> \<not> mentions ''black'' t \<and> \<not> mentions ''poc'' t"
  then show "detect_demographics t = [''women'', ''white'']"
    by (elim conjE) (rule women_white_only)
next
  assume "mentions ''men'' t \<and> mentions ''black'' t \<and>
    \<not> mentions ''women'' t \<and> \<not> mentions ''white'' t \<and> \<not> mentions ''poc'' t"
  then show "detect_demographics t = [''men'', ''black'']"
    by (elim conjE) (rule men_black_only)
next
  assume "mentions ''men'' t \<and> mentions ''poc'' t \<and>
    \<not> mentions ''women'' t \<and> \<not> mentions ''white'' t \<and> \<not> mentions ''black'' t"
  then show "detect_demographics t = [''men'', ''poc'']"
    by (elim conjE) (rule men_poc_only)
qed

theorem two_composites_detected_witness:
  "mentions ''women'' ''Asian women and White men'' \<and>
   mentions ''poc'' ''Asian women and White men'' \<and>
   mentions ''men'' ''Asian women and White men'' \<and>
   mentions ''white'' ''Asian women and White men'' \<and>
   ''women_of_color'' \<in> set (detect_demographics ''Asian women and White men'') \<and>
   ''white_men'' \<in> set (detect_demographics ''Asian women and White men'') \<and>
   mentions ''women'' ''Caucasian females'' \<and> mentions ''white'' ''Caucasian females'' \<and>
   \<not> mentions ''men'' ''Caucasian females'' \<and> \<not> mentions ''black'' ''Caucasian females'' \<and>
   \<not> mentions ''poc'' ''Caucasian females'' \<and>
   detect_demographics ''Caucasian females'' = [''women'', ''white''] \<and>
   mentions ''men'' ''African American males'' \<and> mentions ''black'' ''African American males'' \<and>
   \<not> mentions ''women'' ''African American males'' \<and>
   \<not> mentions ''white'' ''African American males'' \<and>
   \<not> mentions ''poc'' ''African American males'' \<and>
   detect_demographics ''African American males'' = [''men'', ''black''] \<and>
   mentions ''men'' ''Latino men'' \<and> mentions ''poc'' ''Latino men'' \<and>
   \<not> mentions ''women'' ''Latino men'' \<and> \<not> mentions ''white'' ''Latino men'' \<and>
   \<not> mentions ''black'' ''Latino men'' \<and>
   detect_demographics ''Latino men'' = [''men'', ''poc'']"
proof -
  let ?T = "''Asian women and White men''"
  have w: "mentions ''women'' ?T" by code_simp
  have p: "mentions ''poc'' ?T" by code_simp
  have m: "mentions ''men'' ?T" by code_simp
  have h: "mentions ''white'' ?T" by code_simp
  note woc = two_composites_detected[of ?T, THEN conjunct1, THEN mp,
      OF conjI[OF w disjI2[OF p]]]
  note wm = two_composites_detected[of ?T, THEN conjunct2, THEN conjunct1, THEN mp,
      OF conjI[OF m h]]
  let ?A = "''Caucasian females''"
  have a: "mentions ''women'' ?A \<and> mentions ''white'' ?A \<and>
      \<not> mentions ''men'' ?A \<and> \<not> mentions ''black'' ?A \<and> \<not> mentions ''poc'' ?A"
    by code_simp
  note ra = two_composites_detected[of ?A, THEN conjunct2, THEN conjunct2, THEN conjunct2,
      THEN conjunct2, THEN conjunct1, THEN mp, OF a]
  let ?B = "''African American males''"
  have b: "mentions ''men'' ?B \<and> mentions ''black'' ?B \<and>
      \<not> mentions ''women'' ?B \<and> \<not> mentions ''white'' ?B \<and> \<not> mentions ''poc'' ?B"
    by code_simp
  note rb = two_composites_detected[of ?B, THEN conjunct2, THEN conjunct2, THEN conjunct2,
      THEN conjunct2, THEN conjunct2, THEN conjunct1, THEN mp, OF b]
  let ?C = "''Latino men''"
  have c: "mentions ''men'' ?C \<and> mentions ''poc'' ?C \<and>
      \<not> mentions ''women'' ?C \<and> \<not> mentions ''white'' ?C \<and> \<not> mentions ''black'' ?C"
    by code_simp
  note rc = two_composites_detected[of ?C, THEN conjunct2, THEN conjunct2, THEN conjunct2,
      THEN conjunct2, THEN conjunct2, THEN conjunct2, THEN mp, OF c]
  show ?thesis
    using w p m h woc wm a ra b rb c rc by simp
qed

text \<open>
  C1 as stated fails: a women term with a white term yields no white_women, and a men
  term with a black term yields no men_of_color.
\<close>

theorem missing_composites_counterexample:
  "mentions ''women'' ''White women lead the board'' \<and>
   mentions ''white'' ''White women lead the board'' \<and>
   detect_demographics ''White women lead the board'' = [''women'', ''white''] \<and>
   mentions ''men'' ''Black men lead the board'' \<and>
   mentions ''black'' ''Black men lead the board'' \<and>
   detect_demographics ''Black men lead the board'' = [''men'', ''black'']"
  by code_simp

text \<open>
  C3 (as the code has it). No intersectional phrase is matched on its own and there is
  no precedence rule: women_of_color is in the result exactly when the women pattern and
  the black or the poc pattern match, and white_men exactly when the men pattern and the
  white pattern match.
\<close>

theorem composite_iff_single_axis_matches:
  "(''women_of_color'' \<in> set (detect_demographics t) \<longleftrightarrow>
      mentions ''women'' t \<and> (mentions ''black'' t \<or> mentions ''poc'' t)) \<and>
   (''white_men'' \<in> set (detect_demographics t) \<longleftrightarrow>
      mentions ''men'' t \<and> mentions ''white'' t)"
  by (simp only: women_of_color_iff white_men_iff simp_thms)

theorem composite_iff_single_axis_matches_witness:
  "mentions ''women'' ''Hispanic women in office'' \<and>
   mentions ''poc'' ''Hispanic women in office'' \<and>
   ''women_of_color'' \<in> set (detect_demographics ''Hispanic women in office'') \<and>
   \<not> mentions ''men'' ''Hispanic women in office'' \<and>
   ''white_men'' \<notin> set (detect_demographics ''Hispanic women in office'')"
proof -
  let ?T = "''Hispanic women in office''"
  have w: "mentions ''women'' ?T" by code_simp
  have p: "mentions ''poc'' ?T" by code_simp
  have m: "\<not> mentions ''men'' ?T" by code_simp
  note woc = composite_iff_single_axis_matches[of ?T, THEN conjunct1, THEN iffD2,
      OF conjI[OF w disjI2[OF p]]]
  have wm: "''white_men'' \<notin> set (detect_demographics ?T)"
    using composite_iff_single_axis_matches[of ?T, THEN conjunct2] m by simp
  show ?thesis
    using w p m woc wm by simp
qed

text \<open>
  C3 as stated fails: the text \<^verbatim>\<open>women of color\<close> is a phrase the configuration lists
  under women_of_color, and the result for it is women alone.
\<close>

theorem intersectional_phrase_counterexample:
  "phrase_target ''women of color'' = Some ''women_of_color'' \<and>
   detect_demographics ''women of color'' = [''women'']"
  by code_simp

section \<open>Claims about frame detection and the analysis loop\<close>

text \<open>
  C6. A frame label of the classifier's answer is kept as detected exactly when its score
  is strictly greater than 0.5: for an answer whose labels are among the four candidate
  labels, the comprehension raises nothing and returns, in order, the frame name and the
  score of exactly the labels scored above 0.5. A score of 0.5 is not a detection, any
  score above it is. The threshold is the literal of the notebook, which equals
  \<^verbatim>\<open>zero_shot.confidence_threshold\<close>; no configuration is read.
\<close>

theorem detected_frames_exact:
  assumes "set (labels fr) \<subseteq> set frame_labels"
  shows "detected_frames fr =
           Inr (map (\<lambda>(l, s). (frame_word l, s))
                  (filter (\<lambda>(l, s). 1 / 2 < s) (zip (labels fr) (scores fr))))"
  using assms by (rule detected_frames_candidates)

theorem detected_frames_exact_witness:
  "set (labels obstacles_only) \<subseteq> set frame_labels \<and>
   detected_frames obstacles_only = Inr [(''obstacles'', 9 / 10)]"
proof -
  have h: "set (labels obstacles_only) \<subseteq> set frame_labels"
    by code_simp
  have "detected_frames obstacles_only =
      Inr (map (\<lambda>(l, s). (frame_word l, s))
             (filter (\<lambda>(l, s). 1 / 2 < s)
                (zip (labels obstacles_only) (scores obstacles_only))))"
    by (rule detected_frames_exact[OF h])
  also have "\<dots> = Inr [(''obstacles'', 9 / 10)]"
    by (simp add: obstacles_only_def)
  finally show ?thesis
    using h by simp
qed

text \<open>
  C4 (as the code has it). For the example sentence, when the classifier's answer keeps
  only the obstacles frame, the loop's entry lists the frame obstacles and the
  demographics women and white; the code builds no exemplar records, and neither
  white_women nor women_of_color is attached to this text.
\<close>

theorem ceiling_text_entry:
  assumes "clf ceiling_text = Inr fr" and "detected_frames fr = Inr [(''obstacles'', s)]"
  shows "analyze_all clf [\<lparr>article_id = i, title = ti, content = ceiling_text\<rparr>] =
           ([\<lparr>r_article_id = i, r_title = ti, r_detected_frames = [(''obstacles'', s)],
              r_demographics = [''women'', ''white'']\<rparr>], None)"
  using assms by (simp add: analyze_all_def ceiling_text_demographics)

theorem ceiling_text_entry_witness:
  "steady_oracle ceiling_text = Inr obstacles_only \<and>
   detected_frames obstacles_only = Inr [(''obstacles'', 9 / 10)] \<and>
   analyze_all steady_oracle [\<lparr>article_id = ''a7'', title = ''Ceilings'', content = ceiling_text\<rparr>] =
     ([\<lparr>r_article_id = ''a7'', r_title = ''Ceilings'', r_detected_frames = [(''obstacles'', 9 / 10)],
        r_demographics = [''women'', ''white'']\<rparr>], None)"
proof -
  have c: "steady_oracle ceiling_text = Inr obstacles_only"
    by (simp add: steady_oracle_def)
  note e = ceiling_text_entry[where clf = steady_oracle and fr = obstacles_only
      and i = "''a7''" and ti = "''Ceilings''", OF c obstacles_only_frames]
  from c obstacles_only_frames e show ?thesis by (intro conjI)
qed

text \<open>
  C4 as stated fails: with the obstacles frame detected, the targets recorded for the
  example sentence are women and white, not white_women and women_of_color.
\<close>

theorem ceiling_text_counterexample:
  "analyze_all flaky_oracle [\<lparr>article_id = ''a1'', title = ''Glass'', content = ceiling_text\<rparr>] =
     ([\<lparr>r_article_id = ''a1'', r_title = ''Glass'', r_detected_frames = [(''obstacles'', 9 / 10)],
        r_demographics = [''women'', ''white'']\<rparr>], None) \<and>
   ''white_women'' \<notin> set (detect_demographics ceiling_text) \<and>
   ''women_of_color'' \<notin> set (detect_demographics ceiling_text)"
  by code_simp

text \<open>
  C5 (as the code has it). When the classifier call raises on an article, the loop ends
  there with that error: the results hold the entries of the articles before it and
  nothing for the failing article or for any article after it.
\<close>

theorem classifier_failure_stops_loop:
  assumes "analyze_all clf pre = (rs, None)" and "clf (content a) = Inl e"
  shows "analyze_all clf (pre @ a # post) = (rs, Some e)"
  using assms by (simp add: analyze_all_def analyze_loop_append)


theorem classifier_failure_stops_loop_witness:
  "analyze_all flaky_oracle [\<lparr>article_id = ''n1'', title = ''One'', content = ''Men dominate''\<rparr>] =
     ([\<lparr>r_article_id = ''n1'', r_title = ''One'', r_detected_frames = [(''obstacles'', 9 / 10)],
        r_demographics = [''men'']\<rparr>], None) \<and>
   flaky_oracle (content \<lparr>article_id = ''n2'', title = ''Two'', content = ''unreachable''\<rparr>) =
     Inl ClassifierError \<and>
   analyze_all flaky_oracle
     ([\<lparr>article_id = ''n1'', title = ''One'', content = ''Men dominate''\<rparr>] @
      \<lparr>article_id = ''n2'', title = ''Two'', content = ''unreachable''\<rparr> #
      [\<lparr>article_id = ''n3'', title = ''Three'', content = ''Women lead''\<rparr>]) =
     ([\<lparr>r_article_id = ''n1'', r_title = ''One'', r_detected_frames = [(''obstacles'', 9 / 10)],
        r_demographics = [''men'']\<rparr>], Some ClassifierError)"
proof -
  have p: "analyze_all flaky_oracle [\<lparr>article_id = ''n1'', title = ''One'', content = ''Men dominate''\<rparr>] =
     ([\<lparr>r_article_id = ''n1'', r_title = ''One'', r_detected_frames = [(''obstacles'', 9 / 10)],
        r_demographics = [''men'']\<rparr>], None)"
    by code_simp
  have f: "flaky_oracle (content \<lparr>article_id = ''n2'', title = ''Two'', content = ''unreachable''\<rparr>) =
     Inl ClassifierError"
    by (simp add: flaky_oracle_def)
  note r = classifier_failure_stops_loop[where clf = flaky_oracle
      and post = "[\<lparr>article_id = ''n3'', title = ''Three'', content = ''Women lead''\<rparr>]", OF p f]
  from p f r show ?thesis by (intro conjI)
qed

text \<open>
  C5 as stated fails: the failing article gets no result at all (no undetermined value is
  recorded for it), and the article after it is not analysed either.
\<close>

theorem oracle_failure_counterexample:
  "analyze_all flaky_oracle
     [\<lparr>article_id = ''a1'', title = ''First'', content = ''Women face barriers''\<rparr>,
      \<lparr>article_id = ''a2'', title = ''Second'', content = ''unreachable''\<rparr>,
      \<lparr>article_id = ''a3'', title = ''Third'', content = ''White men dominate''\<rparr>] =
     ([\<lparr>r_article_id = ''a1'', r_title = ''First'', r_detected_frames = [(''obstacles'', 9 / 10)],
        r_demographics = [''women'']\<rparr>], Some ClassifierError)"
  by code_simp




end
